theory Spec2Isabelle
  imports Main
begin

section \<open>Errors\<close>

text \<open>
  Every exception the modelled code can raise is a value.  \<open>StrptimeError\<close>,
  \<open>ConflictError\<close> and \<open>NotFoundError\<close> are all Python \<open>ValueError\<close>s; they are
  told apart by where they are raised (and by their message): \<open>datetime.strptime\<close>,
  the conflict check of \<open>create_appointment\<close>, and the failed lookups of
  \<open>update_appointment_status\<close> and \<open>delete_appointment\<close>.  \<open>OverflowError\<close> is raised by
  \<open>timedelta\<close> and by \<open>datetime + timedelta\<close>; \<open>ValidationError\<close> by the pydantic models.
\<close>

datatype error =
    StrptimeError
  | OverflowError
  | ValidationError
  | ConflictError string
  | NotFoundError string

section \<open>The datetime library, as far as the code uses it\<close>

text \<open>
  Strings are lists of characters; a character stands for one code point, and the digits
  are the ASCII digits.
\<close>

definition char_between :: "char \<Rightarrow> char \<Rightarrow> char \<Rightarrow> bool" where
  "char_between lo hi c = ((of_char lo :: nat) \<le> of_char c \<and> (of_char c :: nat) \<le> of_char hi)"

definition is_digit :: "char \<Rightarrow> bool" where
  "is_digit c = char_between (CHR ''0'') (CHR ''9'') c"

definition digit_val :: "char \<Rightarrow> nat" where
  "digit_val c = of_char c - 48"

definition digit_char :: "nat \<Rightarrow> char" where
  "digit_char n = char_of (48 + n)"

text \<open>\<open>zfill k n\<close>: the last \<open>k\<close> decimal digits of \<open>n\<close>, zero padded (\<open>%02d\<close> for \<open>n < 100\<close>).\<close>

fun zfill :: "nat \<Rightarrow> nat \<Rightarrow> string" where
  "zfill 0 n = []"
| "zfill (Suc k) n = zfill k (n div 10) @ [digit_char (n mod 10)]"

text \<open>
  \<open>strptime\<close> compiles its format into a regular expression and matches it, with
  backtracking, against the start of the string.  Each directive is a group of
  alternatives tried from left to right; a function below returns, in that order, the
  value and the rest of the string for every alternative that matches.
  \<^item> \<open>%H\<close> is \<^verbatim>\<open>2[0-3]|[0-1]\d|\d\<close>, \<open>%M\<close> is \<^verbatim>\<open>[0-5]\d|\d\<close>;
  \<^item> \<open>%Y\<close> is \<^verbatim>\<open>\d\d\d\d\<close>, \<open>%m\<close> is \<^verbatim>\<open>1[0-2]|0[1-9]|[1-9]\<close>,
    \<open>%d\<close> is \<^verbatim>\<open>3[0-1]|[1-2]\d|0[1-9]|[1-9]| [1-9]\<close>.
\<close>

fun re_H :: "string \<Rightarrow> (nat \<times> string) list" where
  "re_H (a # b # r) =
     (if a = CHR ''2'' \<and> char_between (CHR ''0'') (CHR ''3'') b
      then [(20 + digit_val b, r)] else []) @
     (if char_between (CHR ''0'') (CHR ''1'') a \<and> is_digit b
      then [(10 * digit_val a + digit_val b, r)] else []) @
     (if is_digit a then [(digit_val a, b # r)] else [])"
| "re_H [a] = (if is_digit a then [(digit_val a, [])] else [])"
| "re_H [] = []"

fun re_M :: "string \<Rightarrow> (nat \<times> string) list" where
  "re_M (a # b # r) =
     (if char_between (CHR ''0'') (CHR ''5'') a \<and> is_digit b
      then [(10 * digit_val a + digit_val b, r)] else []) @
     (if is_digit a then [(digit_val a, b # r)] else [])"
| "re_M [a] = (if is_digit a then [(digit_val a, [])] else [])"
| "re_M [] = []"

fun re_Y :: "string \<Rightarrow> (nat \<times> string) list" where
  "re_Y (a # b # c # d # r) =
     (if is_digit a \<and> is_digit b \<and> is_digit c \<and> is_digit d
      then [(1000 * digit_val a + 100 * digit_val b + 10 * digit_val c + digit_val d, r)]
      else [])"
| "re_Y _ = []"

fun re_m :: "string \<Rightarrow> (nat \<times> string) list" where
  "re_m (a # b # r) =
     (if a = CHR ''1'' \<and> char_between (CHR ''0'') (CHR ''2'') b
      then [(10 + digit_val b, r)] else []) @
     (if a = CHR ''0'' \<and> char_between (CHR ''1'') (CHR ''9'') b
      then [(digit_val b, r)] else []) @
     (if char_between (CHR ''1'') (CHR ''9'') a then [(digit_val a, b # r)] else [])"
| "re_m [a] = (if char_between (CHR ''1'') (CHR ''9'') a then [(digit_val a, [])] else [])"
| "re_m [] = []"

fun re_d :: "string \<Rightarrow> (nat \<times> string) list" where
  "re_d (a # b # r) =
     (if a = CHR ''3'' \<and> char_between (CHR ''0'') (CHR ''1'') b
      then [(30 + digit_val b, r)] else []) @
     (if char_between (CHR ''1'') (CHR ''2'') a \<and> is_digit b
      then [(10 * digit_val a + digit_val b, r)] else []) @
     (if a = CHR ''0'' \<and> char_between (CHR ''1'') (CHR ''9'') b
      then [(digit_val b, r)] else []) @
     (if char_between (CHR ''1'') (CHR ''9'') a then [(digit_val a, b # r)] else []) @
     (if a = CHR '' '' \<and> char_between (CHR ''1'') (CHR ''9'') b
      then [(digit_val b, r)] else [])"
| "re_d [a] = (if char_between (CHR ''1'') (CHR ''9'') a then [(digit_val a, [])] else [])"
| "re_d [] = []"

text \<open>A literal character of the format: the rest of the string when it is there.\<close>

fun lit :: "char \<Rightarrow> string \<Rightarrow> string list" where
  "lit c (x # r) = (if x = c then [r] else [])"
| "lit c [] = []"

text \<open>
  \<open>datetime.strptime(s, '%H:%M')\<close> returns a datetime on 1900-01-01 with zero seconds.
  Every datetime the code handles is that one plus whole minutes, so a datetime is
  modelled as the number of minutes since 1900-01-01T00:00.  The first match of the
  regular expression is taken; \<open>ValueError\<close> when there is none, or when it leaves part
  of the string unconverted.
\<close>

type_synonym datetime = int

definition strptime_HM :: "string \<Rightarrow> error + datetime" where
  "strptime_HM s =
     (case concat (map (\<lambda>(h, r). concat (map (\<lambda>r1. map (\<lambda>(m, r2). (h, m, r2)) (re_M r1))
                                              (lit (CHR '':'') r)))
                       (re_H s)) of
        [] \<Rightarrow> Inl StrptimeError
      | (h, m, rest) # _ \<Rightarrow>
          if rest \<noteq> [] then Inl StrptimeError else Inr (int (h * 60 + m)))"

definition hour :: "datetime \<Rightarrow> int" where
  "hour t = (t mod 1440) div 60"

definition minute :: "datetime \<Rightarrow> int" where
  "minute t = t mod 60"

definition strftime_HM :: "datetime \<Rightarrow> string" where
  "strftime_HM t = zfill 2 (nat (hour t)) @ '':'' @ zfill 2 (nat (minute t))"

text \<open>
  \<open>timedelta(minutes=n)\<close> raises \<open>OverflowError\<close> unless its days are within
  \<open>\<plusminus>999999999\<close>.  A timedelta of whole minutes is the number of minutes.
\<close>

definition timedelta_minutes :: "int \<Rightarrow> error + int" where
  "timedelta_minutes n =
     (if - 999999999 \<le> n div 1440 \<and> n div 1440 \<le> 999999999 then Inr n
      else Inl OverflowError)"

text \<open>
  \<open>datetime.min\<close> is 0001-01-01T00:00, 693595 days before 1900-01-01, and the last
  whole minute of \<open>datetime.max\<close> is 9999-12-31T23:59, 2958463 days and 1439 minutes
  after it.  An addition that leaves this range raises \<open>OverflowError\<close>.
\<close>

definition datetime_min :: datetime where
  "datetime_min = - (693595 * 1440)"

definition datetime_max :: datetime where
  "datetime_max = 2958463 * 1440 + 1439"

definition datetime_add :: "datetime \<Rightarrow> int \<Rightarrow> error + datetime" where
  "datetime_add t delta =
     (if datetime_min \<le> t + delta \<and> t + delta \<le> datetime_max then Inr (t + delta)
      else Inl OverflowError)"

text \<open>\<open>datetime.strptime(v, '%Y-%m-%d')\<close>, used by the pydantic date validators.\<close>

definition leap_year :: "nat \<Rightarrow> bool" where
  "leap_year y = (y mod 4 = 0 \<and> (y mod 100 \<noteq> 0 \<or> y mod 400 = 0))"

definition days_in_month :: "nat \<Rightarrow> nat \<Rightarrow> nat" where
  "days_in_month y m =
     (if m = 2 then (if leap_year y then 29 else 28)
      else if m \<in> set [4, 6, 9, 11] then 30 else 31)"

definition strptime_Ymd :: "string \<Rightarrow> error + nat \<times> nat \<times> nat" where
  "strptime_Ymd s =
     (case concat (map (\<lambda>(y, r). concat (map (\<lambda>r1.
               concat (map (\<lambda>(m, r2). concat (map (\<lambda>r3.
                  map (\<lambda>(d, r4). (y, m, d, r4)) (re_d r3))
                (lit (CHR ''-'') r2))) (re_m r1)))
             (lit (CHR ''-'') r))) (re_Y s)) of
        [] \<Rightarrow> Inl StrptimeError
      | (y, m, d, rest) # _ \<Rightarrow>
          if rest \<noteq> [] then Inl StrptimeError
          else if y < 1 \<or> days_in_month y m < d then Inl StrptimeError
          else Inr (y, m, d))"

text \<open>The reading of the clock by \<open>datetime.utcnow()\<close>, and its \<open>isoformat()\<close>.\<close>

record utc_clock =
  c_year :: nat
  c_month :: nat
  c_day :: nat
  c_hour :: nat
  c_minute :: nat
  c_second :: nat
  c_microsecond :: nat

definition isoformat :: "utc_clock \<Rightarrow> string" where
  "isoformat c =
     zfill 4 (c_year c) @ ''-'' @ zfill 2 (c_month c) @ ''-'' @ zfill 2 (c_day c) @ ''T'' @
     zfill 2 (c_hour c) @ '':'' @ zfill 2 (c_minute c) @ '':'' @ zfill 2 (c_second c) @
     (if c_microsecond c = 0 then [] else ''.'' @ zfill 6 (c_microsecond c))"

section \<open>utils/conflict\_detector.py\<close>

definition parse_time :: "string \<Rightarrow> error + datetime" where
  "parse_time time_str = strptime_HM time_str"

definition add_minutes :: "string \<Rightarrow> int \<Rightarrow> error + string" where
  "add_minutes time_str minutes =
     (case parse_time time_str of
        Inl e \<Rightarrow> Inl e
      | Inr time_obj \<Rightarrow>
          (case timedelta_minutes minutes of
             Inl e \<Rightarrow> Inl e
           | Inr delta \<Rightarrow>
               (case datetime_add time_obj delta of
                  Inl e \<Rightarrow> Inl e
                | Inr new_time \<Rightarrow> Inr (strftime_HM new_time))))"

definition time_to_minutes :: "string \<Rightarrow> error + int" where
  "time_to_minutes time_str =
     (case parse_time time_str of
        Inl e \<Rightarrow> Inl e
      | Inr time_obj \<Rightarrow> Inr (hour time_obj * 60 + minute time_obj))"

definition overlap_message :: "string \<Rightarrow> string \<Rightarrow> string \<Rightarrow> string \<Rightarrow> string" where
  "overlap_message slot1_start slot1_end_time slot2_start slot2_end_time =
     ''Conflict detected: '' @
     ''Slot 1 ('' @ slot1_start @ ''-'' @ slot1_end_time @ '') overlaps with '' @
     ''Slot 2 ('' @ slot2_start @ ''-'' @ slot2_end_time @ '')''"

definition detect_overlap ::
  "string \<Rightarrow> int \<Rightarrow> string \<Rightarrow> int \<Rightarrow> int \<Rightarrow> error + bool \<times> string option" where
  "detect_overlap slot1_start slot1_duration slot2_start slot2_duration buffer_minutes =
     (case time_to_minutes slot1_start of
        Inl e \<Rightarrow> Inl e
      | Inr start1 \<Rightarrow>
          let end1 = start1 + slot1_duration + buffer_minutes in
          (case time_to_minutes slot2_start of
             Inl e \<Rightarrow> Inl e
           | Inr start2 \<Rightarrow>
               let end2 = start2 + slot2_duration + buffer_minutes;
                   has_overlap = (start1 < end2 \<and> start2 < end1)
               in if has_overlap then
                    (case add_minutes slot1_start slot1_duration of
                       Inl e \<Rightarrow> Inl e
                     | Inr slot1_end_time \<Rightarrow>
                         (case add_minutes slot2_start slot2_duration of
                            Inl e \<Rightarrow> Inl e
                          | Inr slot2_end_time \<Rightarrow>
                              Inr (True, Some (overlap_message slot1_start slot1_end_time
                                                 slot2_start slot2_end_time))))
                  else Inr (False, None)))"

definition validate_business_hours :: "string \<Rightarrow> int \<Rightarrow> int \<Rightarrow> error + bool" where
  "validate_business_hours time_str min_hour max_hour =
     (case parse_time time_str of
        Inl e \<Rightarrow> Inl e
      | Inr time_obj \<Rightarrow> Inr (min_hour \<le> hour time_obj \<and> hour time_obj < max_hour))"

text \<open>The time strings of the form HH:MM are \<open>HHMM h mi\<close> for \<open>h < 24\<close> and \<open>mi < 60\<close>.\<close>

definition HHMM :: "nat \<Rightarrow> nat \<Rightarrow> string" where
  "HHMM h mi = zfill 2 h @ '':'' @ zfill 2 mi"

text \<open>
  The overlap rule in the specification's words: slot 1 starts before slot 2's padded
  end and slot 2 starts before slot 1's padded end, on minutes since midnight.
\<close>

definition spec_overlap :: "int \<Rightarrow> int \<Rightarrow> int \<Rightarrow> int \<Rightarrow> int \<Rightarrow> bool" where
  "spec_overlap m1 d1 m2 d2 buffer = (m1 < m2 + d2 + buffer \<and> m2 < m1 + d1 + buffer)"

section \<open>models/appointment.py\<close>

text \<open>
  \<open>AppointmentBase\<close> and its two subclasses.  The rows of \<open>appointments_db\<close> are
  dictionaries with exactly the nine keys of \<open>AppointmentResponse\<close>, so one record type,
  \<open>Appointment\<close>, stands for a row and for a response; the pydantic validation that
  \<open>AppointmentResponse(**apt)\<close> runs is the function \<open>AppointmentResponse\<close> below.  The
  optional \<open>status\<close> of \<open>CreateAppointmentInput\<close> is \<open>status_opt\<close>.
\<close>

record AppointmentBase =
  patient_name :: string
  date :: string
  time :: string
  duration :: int
  doctor_name :: string
  mode :: string

record CreateAppointmentInput = AppointmentBase +
  status_opt :: "string option"

record Appointment = AppointmentBase +
  id' :: string
  status :: string
  created_at :: string

definition validate_date_format :: "string \<Rightarrow> bool" where
  "validate_date_format v = (case strptime_Ymd v of Inl e \<Rightarrow> False | Inr d \<Rightarrow> True)"

definition validate_time_format :: "string \<Rightarrow> bool" where
  "validate_time_format v = (case strptime_HM v of Inl e \<Rightarrow> False | Inr t \<Rightarrow> True)"

definition AppointmentBase_valid :: "'a AppointmentBase_scheme \<Rightarrow> bool" where
  "AppointmentBase_valid a =
     (2 \<le> length (patient_name a) \<and> length (patient_name a) \<le> 100 \<and>
      validate_date_format (date a) \<and>
      validate_time_format (time a) \<and>
      15 \<le> duration a \<and> duration a \<le> 240 \<and>
      2 \<le> length (doctor_name a) \<and> length (doctor_name a) \<le> 100 \<and>
      mode a \<in> set [''In-person'', ''Video'', ''Phone''])"

text \<open>What pydantic guarantees of every \<open>CreateAppointmentInput\<close> object.\<close>

definition CreateAppointmentInput_valid :: "CreateAppointmentInput \<Rightarrow> bool" where
  "CreateAppointmentInput_valid i =
     (AppointmentBase_valid i \<and>
      (case status_opt i of
         None \<Rightarrow> True
       | Some s \<Rightarrow> s \<in> set [''Scheduled'', ''Confirmed'', ''Upcoming'']))"

definition status_values :: "string list" where
  "status_values = [''Scheduled'', ''Confirmed'', ''Upcoming'', ''Completed'', ''Cancelled'']"

definition Appointment_valid :: "Appointment \<Rightarrow> bool" where
  "Appointment_valid a = (AppointmentBase_valid a \<and> status a \<in> set status_values)"

definition AppointmentResponse :: "Appointment \<Rightarrow> error + Appointment" where
  "AppointmentResponse apt = (if Appointment_valid apt then Inr apt else Inl ValidationError)"

section \<open>services/appointment\_service.py\<close>

text \<open>
  The module has its own \<open>parse_time\<close>, with the body of the detector's; the one
  definition above serves both.
\<close>

definition appointments_db :: "Appointment list" where
  "appointments_db = [
     \<lparr>patient_name = ''Rajesh Kumar'', date = ''2025-12-27'', time = ''09:00'', duration = 30,
       doctor_name = ''Dr. Sarah Johnson'', mode = ''In-person'',
       id' = ''apt-001'', status = ''Confirmed'', created_at = ''2025-12-26T10:30:00Z''\<rparr>,
     \<lparr>patient_name = ''Priya Sharma'', date = ''2025-12-27'', time = ''10:00'', duration = 45,
       doctor_name = ''Dr. Rajesh Verma'', mode = ''Video'',
       id' = ''apt-002'', status = ''Scheduled'', created_at = ''2025-12-26T11:00:00Z''\<rparr>,
     \<lparr>patient_name = ''Amit Patel'', date = ''2025-12-27'', time = ''11:30'', duration = 30,
       doctor_name = ''Dr. Sarah Johnson'', mode = ''In-person'',
       id' = ''apt-003'', status = ''Upcoming'', created_at = ''2025-12-26T12:00:00Z''\<rparr>,
     \<lparr>patient_name = ''Sneha Reddy'', date = ''2025-12-28'', time = ''14:00'', duration = 60,
       doctor_name = ''Dr. Anjali Desai'', mode = ''In-person'',
       id' = ''apt-004'', status = ''Confirmed'', created_at = ''2025-12-26T14:30:00Z''\<rparr>,
     \<lparr>patient_name = ''Vikram Singh'', date = ''2025-12-26'', time = ''15:30'', duration = 30,
       doctor_name = ''Dr. Sarah Johnson'', mode = ''Phone'',
       id' = ''apt-005'', status = ''Completed'', created_at = ''2025-12-25T09:00:00Z''\<rparr>,
     \<lparr>patient_name = ''Lakshmi Iyer'', date = ''2025-12-29'', time = ''09:30'', duration = 45,
       doctor_name = ''Dr. Rajesh Verma'', mode = ''Video'',
       id' = ''apt-006'', status = ''Scheduled'', created_at = ''2025-12-26T16:00:00Z''\<rparr>,
     \<lparr>patient_name = ''Arjun Mehta'', date = ''2025-12-30'', time = ''11:00'', duration = 30,
       doctor_name = ''Dr. Anjali Desai'', mode = ''In-person'',
       id' = ''apt-007'', status = ''Scheduled'', created_at = ''2025-12-26T17:00:00Z''\<rparr>,
     \<lparr>patient_name = ''Kavya Nair'', date = ''2025-12-25'', time = ''10:00'', duration = 60,
       doctor_name = ''Dr. Sarah Johnson'', mode = ''In-person'',
       id' = ''apt-008'', status = ''Cancelled'', created_at = ''2025-12-24T10:00:00Z''\<rparr>,
     \<lparr>patient_name = ''Rohit Kapoor'', date = ''2025-12-31'', time = ''16:00'', duration = 30,
       doctor_name = ''Dr. Rajesh Verma'', mode = ''Video'',
       id' = ''apt-009'', status = ''Upcoming'', created_at = ''2025-12-26T18:00:00Z''\<rparr>,
     \<lparr>patient_name = ''Ananya Chatterjee'', date = ''2026-01-02'', time = ''09:00'', duration = 45,
       doctor_name = ''Dr. Anjali Desai'', mode = ''In-person'',
       id' = ''apt-010'', status = ''Scheduled'', created_at = ''2025-12-26T19:00:00Z''\<rparr>,
     \<lparr>patient_name = ''Deepak Rao'', date = ''2025-12-28'', time = ''10:30'', duration = 30,
       doctor_name = ''Dr. Sarah Johnson'', mode = ''In-person'',
       id' = ''apt-011'', status = ''Confirmed'', created_at = ''2025-12-26T20:00:00Z''\<rparr>,
     \<lparr>patient_name = ''Neha Gupta'', date = ''2025-12-29'', time = ''15:00'', duration = 45,
       doctor_name = ''Dr. Anjali Desai'', mode = ''Video'',
       id' = ''apt-012'', status = ''Upcoming'', created_at = ''2025-12-26T21:00:00Z''\<rparr>
   ]"

definition calculate_end_time :: "string \<Rightarrow> int \<Rightarrow> error + string" where
  "calculate_end_time start_time dur =
     (case parse_time start_time of
        Inl e \<Rightarrow> Inl e
      | Inr start_dt \<Rightarrow>
          (case timedelta_minutes dur of
             Inl e \<Rightarrow> Inl e
           | Inr delta \<Rightarrow>
               (case datetime_add start_dt delta of
                  Inl e \<Rightarrow> Inl e
                | Inr end_dt \<Rightarrow> Inr (strftime_HM end_dt))))"

definition check_time_overlap :: "string \<Rightarrow> string \<Rightarrow> string \<Rightarrow> string \<Rightarrow> error + bool" where
  "check_time_overlap start1 end1 start2 end2 =
     (case parse_time start1 of
        Inl e \<Rightarrow> Inl e
      | Inr start1_dt \<Rightarrow>
     (case parse_time end1 of
        Inl e \<Rightarrow> Inl e
      | Inr end1_dt \<Rightarrow>
     (case parse_time start2 of
        Inl e \<Rightarrow> Inl e
      | Inr start2_dt \<Rightarrow>
     (case parse_time end2 of
        Inl e \<Rightarrow> Inl e
      | Inr end2_dt \<Rightarrow> Inr (start1_dt < end2_dt \<and> start2_dt < end1_dt)))))"

text \<open>
  \<open>if date:\<close> and its siblings test truthiness: a filter that is \<open>None\<close> or the empty
  string is skipped.
\<close>

definition apply_filter ::
  "string option \<Rightarrow> (Appointment \<Rightarrow> string) \<Rightarrow> Appointment list \<Rightarrow> Appointment list" where
  "apply_filter f field filtered_appointments =
     (case f of
        None \<Rightarrow> filtered_appointments
      | Some v \<Rightarrow>
          if v \<noteq> [] then filter (\<lambda>apt. field apt = v) filtered_appointments
          else filtered_appointments)"

fun to_responses :: "Appointment list \<Rightarrow> error + Appointment list" where
  "to_responses [] = Inr []"
| "to_responses (apt # rest) =
     (case AppointmentResponse apt of
        Inl e \<Rightarrow> Inl e
      | Inr r \<Rightarrow> (case to_responses rest of Inl e \<Rightarrow> Inl e | Inr rs \<Rightarrow> Inr (r # rs)))"

definition get_appointments ::
  "string option \<Rightarrow> string option \<Rightarrow> string option \<Rightarrow> Appointment list
     \<Rightarrow> error + Appointment list" where
  "get_appointments date_f status_f doctor_name_f db =
     to_responses (apply_filter doctor_name_f doctor_name
                     (apply_filter status_f status (apply_filter date_f date db)))"

definition conflict_message :: "string \<Rightarrow> string \<Rightarrow> string \<Rightarrow> string \<Rightarrow> string" where
  "conflict_message doctor existing_time existing_end_time on_date =
     ''Time conflict: '' @ doctor @ '' already has an appointment '' @
     ''from '' @ existing_time @ '' to '' @ existing_end_time @ '' on '' @ on_date"

text \<open>
  The loop over \<open>appointments_db\<close> in \<open>create_appointment\<close>: \<open>None\<close> when it runs to its
  end, the exception otherwise.
\<close>

fun conflict_scan :: "CreateAppointmentInput \<Rightarrow> string \<Rightarrow> Appointment list \<Rightarrow> error option" where
  "conflict_scan input_data new_end_time [] = None"
| "conflict_scan input_data new_end_time (existing_apt # rest) =
     (if doctor_name existing_apt = doctor_name input_data \<and>
         date existing_apt = date input_data \<and>
         status existing_apt \<notin> set [''Cancelled'', ''Completed'']
      then
        (case calculate_end_time (time existing_apt) (duration existing_apt) of
           Inl e \<Rightarrow> Some e
         | Inr existing_end_time \<Rightarrow>
             (case check_time_overlap (time input_data) new_end_time
                     (time existing_apt) existing_end_time of
                Inl e \<Rightarrow> Some e
              | Inr overlap \<Rightarrow>
                  if overlap
                  then Some (ConflictError (conflict_message (doctor_name input_data)
                               (time existing_apt) existing_end_time (date input_data)))
                  else conflict_scan input_data new_end_time rest))
      else conflict_scan input_data new_end_time rest)"

text \<open>
  \<open>create_appointment\<close> reads two things from its environment: \<open>uuid4().hex\<close> and the
  clock.  Both are arguments here.  Every service function returns its result (or the
  exception) together with the contents of \<open>appointments_db\<close> when it ends.
\<close>

definition create_appointment ::
  "string \<Rightarrow> utc_clock \<Rightarrow> CreateAppointmentInput \<Rightarrow> Appointment list
     \<Rightarrow> (error + Appointment) \<times> Appointment list" where
  "create_appointment uuid4_hex utcnow input_data db =
     (let new_id = ''apt-'' @ take 8 uuid4_hex in
      case calculate_end_time (time input_data) (duration input_data) of
        Inl e \<Rightarrow> (Inl e, db)
      | Inr new_end_time \<Rightarrow>
          (case conflict_scan input_data new_end_time db of
             Some e \<Rightarrow> (Inl e, db)
           | None \<Rightarrow>
               let new_appointment =
                     \<lparr>patient_name = patient_name input_data,
                      date = date input_data,
                      time = time input_data,
                      duration = duration input_data,
                      doctor_name = doctor_name input_data,
                      mode = mode input_data,
                      id' = new_id,
                      status = (case status_opt input_data of
                                  None \<Rightarrow> ''Scheduled''
                                | Some s \<Rightarrow> if s \<noteq> [] then s else ''Scheduled''),
                      created_at = isoformat utcnow @ ''Z''\<rparr>
               in (AppointmentResponse new_appointment, db @ [new_appointment])))"

definition not_found_message :: "string \<Rightarrow> string" where
  "not_found_message appointment_id = ''Appointment with ID '' @ appointment_id @ '' not found''"

fun update_appointment_status ::
  "string \<Rightarrow> string \<Rightarrow> Appointment list \<Rightarrow> (error + Appointment) \<times> Appointment list" where
  "update_appointment_status appointment_id new_status [] =
     (Inl (NotFoundError (not_found_message appointment_id)), [])"
| "update_appointment_status appointment_id new_status (apt # rest) =
     (if id' apt = appointment_id
      then (let apt' = apt\<lparr>status := new_status\<rparr> in (AppointmentResponse apt', apt' # rest))
      else (case update_appointment_status appointment_id new_status rest of
              (r, rest') \<Rightarrow> (r, apt # rest')))"

fun delete_appointment ::
  "string \<Rightarrow> Appointment list \<Rightarrow> (error + bool) \<times> Appointment list" where
  "delete_appointment appointment_id [] =
     (Inl (NotFoundError (not_found_message appointment_id)), [])"
| "delete_appointment appointment_id (apt # rest) =
     (if id' apt = appointment_id then (Inr True, rest)
      else (case delete_appointment appointment_id rest of
              (r, rest') \<Rightarrow> (r, apt # rest')))"

section \<open>graphql\_schema/mutations.py\<close>

text \<open>
  The resolver \<open>Mutation.update_appointment_status(id, status)\<close> takes two strings, hands
  them to the service as they are, and copies the nine fields of the response into the
  GraphQL type.  \<open>UpdateAppointmentStatusInput\<close>, the pydantic model that restricts the
  status to the five values, is not used on this path.
\<close>

definition Mutation_update_appointment_status ::
  "string \<Rightarrow> string \<Rightarrow> Appointment list \<Rightarrow> (error + Appointment) \<times> Appointment list" where
  "Mutation_update_appointment_status id_arg status_arg db =
     update_appointment_status id_arg status_arg db"

text \<open>Sequences of mutating operations on the store.\<close>

datatype operation =
    Create string utc_clock CreateAppointmentInput
  | UpdateStatus string string
  | Delete string

fun step :: "operation \<Rightarrow> Appointment list \<Rightarrow> Appointment list" where
  "step (Create uuid4_hex utcnow input_data) db = snd (create_appointment uuid4_hex utcnow input_data db)"
| "step (UpdateStatus appointment_id new_status) db =
     snd (update_appointment_status appointment_id new_status db)"
| "step (Delete appointment_id) db = snd (delete_appointment appointment_id db)"

fun run :: "operation list \<Rightarrow> Appointment list \<Rightarrow> Appointment list" where
  "run [] db = db"
| "run (operation # rest) db = run rest (step operation db)"


text \<open>A filter argument is provided, in the sense of \<open>if date:\<close>, when it is truthy.\<close>

definition truthy :: "string option \<Rightarrow> bool" where
  "truthy f = (case f of None \<Rightarrow> False | Some v \<Rightarrow> v \<noteq> [])"

text \<open>
  For stating what the conflict scan computes: the rows that pass the guard of the loop
  in \<open>create_appointment\<close>, the slots whose end \<open>calculate_end_time\<close> leaves on the day of
  their start, and the overlap test in the specification's words, without buffer, on
  minutes since midnight with end = start + duration.
\<close>

definition is_candidate :: "CreateAppointmentInput \<Rightarrow> Appointment \<Rightarrow> bool" where
  "is_candidate input_data existing_apt =
     (doctor_name existing_apt = doctor_name input_data \<and>
      date existing_apt = date input_data \<and>
      status existing_apt \<notin> set [''Cancelled'', ''Completed''])"

definition ends_same_day :: "string \<Rightarrow> int \<Rightarrow> bool" where
  "ends_same_day start d =
     (case parse_time start of Inl e \<Rightarrow> False | Inr t \<Rightarrow> 0 \<le> d \<and> t + d < 1440)"

definition plain_overlap :: "string \<Rightarrow> int \<Rightarrow> string \<Rightarrow> int \<Rightarrow> bool" where
  "plain_overlap new_start new_duration existing_start existing_duration =
     (case parse_time new_start of
        Inl e \<Rightarrow> False
      | Inr t1 \<Rightarrow>
          (case parse_time existing_start of
             Inl e \<Rightarrow> False
           | Inr t2 \<Rightarrow> spec_overlap t1 new_duration t2 existing_duration 0))"

section \<open>Example inputs\<close>

text \<open>
  Three readings of \<open>uuid4().hex\<close>, a reading of the clock, and four inputs that pass the
  validation of \<open>CreateAppointmentInput\<close>, for evaluating the service on the seeded store.
  The hex form of a version 4 UUID has 32 lowercase hexadecimal digits, with the version
  digit 4 at index 12 and one of 8, 9, a, b (the variant) at index 16.  The first and
  the third reading differ and start with the same eight digits.
\<close>

definition is_hex_digit :: "char \<Rightarrow> bool" where
  "is_hex_digit c = (char_between (CHR ''0'') (CHR ''9'') c \<or> char_between (CHR ''a'') (CHR ''f'') c)"

definition is_uuid4_hex :: "string \<Rightarrow> bool" where
  "is_uuid4_hex s =
     (length s = 32 \<and> list_all is_hex_digit s \<and> s ! 12 = CHR ''4'' \<and> s ! 16 \<in> set ''89ab'')"

definition uuid_a :: string where
  "uuid_a = ''0a1b2c3d4e5f40718293a4b5c6d7e8f9''"

definition uuid_b :: string where
  "uuid_b = ''deadbeef00114233845566778899aabb''"

definition uuid_c :: string where
  "uuid_c = ''0a1b2c3d9f8e4d7cb6a5f4e3d2c1b0a9''"

definition clock_now :: utc_clock where
  "clock_now = \<lparr>c_year = 2025, c_month = 12, c_day = 27, c_hour = 8, c_minute = 30,
                 c_second = 0, c_microsecond = 0\<rparr>"

definition input_late_hour :: CreateAppointmentInput where
  "input_late_hour =
     \<lparr>patient_name = ''Asha Rao'', date = ''2025-12-30'', time = ''23:30'', duration = 60,
      doctor_name = ''Dr. Sarah Johnson'', mode = ''In-person'', status_opt = None\<rparr>"

definition input_late_quarter :: CreateAppointmentInput where
  "input_late_quarter =
     \<lparr>patient_name = ''Bela Sen'', date = ''2025-12-30'', time = ''23:45'', duration = 15,
      doctor_name = ''Dr. Sarah Johnson'', mode = ''Video'', status_opt = Some ''Confirmed''\<rparr>"

definition input_morning :: CreateAppointmentInput where
  "input_morning =
     \<lparr>patient_name = ''Chandra Das'', date = ''2026-01-05'', time = ''09:00'', duration = 30,
      doctor_name = ''Dr. Rajesh Verma'', mode = ''Phone'', status_opt = None\<rparr>"

definition input_overlapping :: CreateAppointmentInput where
  "input_overlapping =
     \<lparr>patient_name = ''Divya Pillai'', date = ''2025-12-27'', time = ''09:15'', duration = 30,
      doctor_name = ''Dr. Sarah Johnson'', mode = ''In-person'', status_opt = Some ''Scheduled''\<rparr>"

section \<open>Lemmas on the datetime library\<close>

lemma of_char_digit_char: "n < 10 \<Longrightarrow> (of_char (digit_char n) :: nat) = 48 + n"
  by (simp add: digit_char_def)

lemma digit_val_digit_char: "n < 10 \<Longrightarrow> digit_val (digit_char n) = n"
  by (simp add: digit_val_def of_char_digit_char)

lemma char_between_digit_char:
  "n < 10 \<Longrightarrow> char_between lo hi (digit_char n) =
     ((of_char lo :: nat) \<le> 48 + n \<and> 48 + n \<le> (of_char hi :: nat))"
  by (simp add: char_between_def of_char_digit_char)

lemma digit_char_eq_iff: "n < 10 \<Longrightarrow> (digit_char n = c) = ((of_char c :: nat) = 48 + n)"
  using of_char_digit_char[of n] by (metis of_char_eq_iff)

lemma zfill2: "zfill 2 n = [digit_char (n div 10 mod 10), digit_char (n mod 10)]"
  by (simp add: numeral_2_eq_2)

lemma re_H_zfill:
  assumes "h < 24"
  shows "re_H (zfill 2 h @ CHR '':'' # s) =
           [(h, CHR '':'' # s), (h div 10, digit_char (h mod 10) # CHR '':'' # s)]"
proof -
  have a: "h div 10 < 10" "h mod 10 < 10" "h div 10 mod 10 = h div 10"
    using assms by auto
  consider "h div 10 = 2" "h mod 10 \<le> 3" "20 + h mod 10 = h"
    | "h div 10 \<le> 1" "10 * (h div 10) + h mod 10 = h"
    using assms by atomize_elim presburger
  then show ?thesis
  proof cases
    case 1
    then show ?thesis using a
      by (simp add: zfill2 is_digit_def char_between_digit_char digit_char_eq_iff
          digit_val_digit_char del: zfill.simps)
  next
    case 2
    then show ?thesis using a
      by (simp add: zfill2 is_digit_def char_between_digit_char digit_char_eq_iff
          digit_val_digit_char del: zfill.simps)
  qed
qed

lemma re_M_zfill:
  assumes "mi < 60"
  shows "re_M (zfill 2 mi) = [(mi, []), (mi div 10, [digit_char (mi mod 10)])]"
proof -
  have a: "mi div 10 < 10" "mi mod 10 < 10" "mi div 10 mod 10 = mi div 10" "mi div 10 \<le> 5"
      "10 * (mi div 10) + mi mod 10 = mi"
    using assms by auto
  then show ?thesis
    by (simp add: zfill2 is_digit_def char_between_digit_char digit_char_eq_iff
          digit_val_digit_char del: zfill.simps)
qed

lemma lit_digit_char: "n < 10 \<Longrightarrow> lit (CHR '':'') (digit_char n # s) = []"
  by (simp add: digit_char_eq_iff)

lemma strptime_HM_HHMM:
  assumes "h < 24" "mi < 60"
  shows "strptime_HM (HHMM h mi) = Inr (int (h * 60 + mi))"
proof -
  have "h mod 10 < 10" by simp
  then show ?thesis
  using assms
  by (simp add: strptime_HM_def HHMM_def re_H_zfill re_M_zfill lit_digit_char del: zfill.simps)
qed

lemma re_H_bound: "(h, r) \<in> set (re_H s) \<Longrightarrow> h < 24"
  by (induction s rule: re_H.induct)
     (auto simp: char_between_def is_digit_def digit_val_def split: if_splits)

lemma re_M_bound: "(m, r) \<in> set (re_M s) \<Longrightarrow> m < 60"
  by (induction s rule: re_M.induct)
     (auto simp: char_between_def is_digit_def digit_val_def split: if_splits)

lemma strptime_HM_range:
  assumes "strptime_HM s = Inr t"
  shows "0 \<le> t \<and> t < 1440"
proof -
  let ?c = "concat (map (\<lambda>(h, r). concat (map (\<lambda>r1. map (\<lambda>(m, r2). (h, m, r2)) (re_M r1))
                                              (lit (CHR '':'') r))) (re_H s))"
  from assms obtain h m rest cs where c: "?c = (h, m, rest) # cs" and t: "t = int (h * 60 + m)"
    unfolding strptime_HM_def by (auto split: list.splits if_splits)
  have "(h, m, rest) \<in> set ?c" unfolding c by simp
  then have "h < 24 \<and> m < 60"
    by (auto dest: re_H_bound re_M_bound)
  then show ?thesis unfolding t by auto
qed

lemma time_to_minutes_parse_time:
  "time_to_minutes s = Inr m \<longleftrightarrow> parse_time s = Inr m"
proof (cases "parse_time s")
  case (Inl e)
  then show ?thesis by (simp add: time_to_minutes_def)
next
  case (Inr t)
  then have r: "0 \<le> t \<and> t < 1440" using strptime_HM_range[of s t] by (simp add: parse_time_def)
  then have "t mod 1440 = t" by simp
  then have "hour t * 60 + minute t = t"
    unfolding hour_def minute_def by simp
  with Inr show ?thesis by (simp add: time_to_minutes_def)
qed

lemma time_to_minutes_HHMM:
  assumes "h < 24" "mi < 60"
  shows "time_to_minutes (HHMM h mi) = Inr (int h * 60 + int mi)"
  using assms by (simp add: time_to_minutes_parse_time parse_time_def strptime_HM_HHMM)

lemma add_minutes_HHMM:
  assumes "h < 24" "mi < 60"
  shows "add_minutes (HHMM h mi) d =
     (if datetime_min \<le> int h * 60 + int mi + d \<and> int h * 60 + int mi + d \<le> datetime_max
      then Inr (strftime_HM (int h * 60 + int mi + d)) else Inl OverflowError)"
proof -
  have "datetime_min \<le> int h * 60 + int mi + d \<and> int h * 60 + int mi + d \<le> datetime_max
     \<Longrightarrow> - 999999999 \<le> d div 1440 \<and> d div 1440 \<le> 999999999"
    using assms unfolding datetime_min_def datetime_max_def by linarith
  then show ?thesis
    using assms
    by (auto simp add: add_minutes_def parse_time_def strptime_HM_HHMM timedelta_minutes_def datetime_add_def)
qed

lemma add_minutes_Inr:
  assumes "add_minutes s d = Inr e"
  shows "\<exists>m. time_to_minutes s = Inr m \<and> e = strftime_HM (m + d)"
  using assms
  by (auto simp: add_minutes_def time_to_minutes_parse_time timedelta_minutes_def datetime_add_def
      split: sum.splits if_splits)

lemma strftime_HM_HHMM:
  assumes "0 \<le> x" "x < 1440"
  shows "strftime_HM x = HHMM (nat (x div 60)) (nat (x mod 60))"
proof -
  have "x mod 1440 = x" using assms by simp
  then show ?thesis
    by (simp add: strftime_HM_def HHMM_def hour_def minute_def del: zfill.simps)
qed

lemma parse_time_strftime_HM:
  assumes "0 \<le> x" "x < 1440"
  shows "parse_time (strftime_HM x) = Inr x"
proof -
  have h: "nat (x div 60) < 24" using assms by simp
  have m: "nat (x mod 60) < 60" using assms by simp
  have "0 \<le> x div 60" using assms by (simp add: pos_imp_zdiv_nonneg_iff)
  then have "int (nat (x div 60) * 60 + nat (x mod 60)) = x" using assms by simp
  then show ?thesis
    unfolding parse_time_def strftime_HM_HHMM[OF assms] strptime_HM_HHMM[OF h m] by simp
qed

section \<open>Claims on the conflict detector\<close>

text \<open>
  Claim C9.  For every time string HH:MM and all hours \<open>min_hour\<close>, \<open>max_hour\<close>,
  \<open>validate_business_hours\<close> returns true exactly when the hour \<open>h\<close> of the time
  satisfies \<open>min_hour \<le> h < max_hour\<close>; neither the minutes nor any duration enter.
  With the defaults 8 and 20, 08:00 and 19:59 are accepted and 20:00 is rejected.
\<close>

theorem validate_business_hours_hour_range:
  "(\<forall>h mi min_hour max_hour. h < 24 \<and> mi < 60 \<longrightarrow>
      validate_business_hours (HHMM h mi) min_hour max_hour
        = Inr (min_hour \<le> int h \<and> int h < max_hour)) \<and>
   validate_business_hours ''08:00'' 8 20 = Inr True \<and>
   validate_business_hours ''19:59'' 8 20 = Inr True \<and>
   validate_business_hours ''20:00'' 8 20 = Inr False"
proof -
  have g: "validate_business_hours (HHMM h mi) lo hi = Inr (lo \<le> int h \<and> int h < hi)"
    if "h < 24" "mi < 60" for h mi lo hi
  proof -
    have "(int h * 60 + int mi) mod 1440 = int h * 60 + int mi" using that by simp
    moreover have "(int h * 60 + int mi) div 60 = int h" using that by simp
    ultimately show ?thesis
      using that by (simp add: validate_business_hours_def parse_time_def strptime_HM_HHMM hour_def)
  qed
  have e1: "validate_business_hours ''08:00'' 8 20 = Inr True" by code_simp
  have e2: "validate_business_hours ''19:59'' 8 20 = Inr True" by code_simp
  have e3: "validate_business_hours ''20:00'' 8 20 = Inr False" by code_simp
  show ?thesis
    using g e1 e2 e3 by blast
qed

theorem validate_business_hours_hour_range_witness:
  "(19::nat) < 24 \<and> (59::nat) < 60 \<and> validate_business_hours (HHMM 19 59) 8 20 = Inr True"
  using validate_business_hours_hour_range by simp

text \<open>
  Claim C1, as amended.  For all start times HH:MM, all durations and every buffer,
  \<open>detect_overlap\<close> returns \<open>(False, None)\<close> when the overlap rule of the
  specification fails.  When the rule holds, it returns true (with the message) provided
  both end times, start plus duration, are datetimes, that is lie between
  \<open>datetime_min\<close> and \<open>datetime_max\<close>; otherwise the computation of the displayed
  end time raises \<open>OverflowError\<close>.  A back-to-back pair gives false with buffer 0, and
  true with buffer 5 when the durations are not negative and the second end time is a
  datetime.
\<close>

theorem detect_overlap_flag:
  assumes "h1 < 24" "mi1 < 60" "h2 < 24" "mi2 < 60"
  shows "detect_overlap (HHMM h1 mi1) d1 (HHMM h2 mi2) d2 b =
          (if spec_overlap (int h1 * 60 + int mi1) d1 (int h2 * 60 + int mi2) d2 b
           then (if datetime_min \<le> int h1 * 60 + int mi1 + d1 \<and>
                    int h1 * 60 + int mi1 + d1 \<le> datetime_max \<and>
                    datetime_min \<le> int h2 * 60 + int mi2 + d2 \<and>
                    int h2 * 60 + int mi2 + d2 \<le> datetime_max
                 then Inr (True, Some (overlap_message
                         (HHMM h1 mi1) (strftime_HM (int h1 * 60 + int mi1 + d1))
                         (HHMM h2 mi2) (strftime_HM (int h2 * 60 + int mi2 + d2))))
                 else Inl OverflowError)
           else Inr (False, None))
       \<and> (int h2 * 60 + int mi2 = int h1 * 60 + int mi1 + d1 \<longrightarrow>
            detect_overlap (HHMM h1 mi1) d1 (HHMM h2 mi2) d2 0 = Inr (False, None))
       \<and> (int h2 * 60 + int mi2 = int h1 * 60 + int mi1 + d1 \<and> 0 \<le> d1 \<and> 0 \<le> d2 \<and>
            int h2 * 60 + int mi2 + d2 \<le> datetime_max \<longrightarrow>
            detect_overlap (HHMM h1 mi1) d1 (HHMM h2 mi2) d2 5 =
              Inr (True, Some (overlap_message
                         (HHMM h1 mi1) (HHMM h2 mi2)
                         (HHMM h2 mi2) (strftime_HM (int h2 * 60 + int mi2 + d2)))))"
proof -
  have g: "detect_overlap (HHMM h1 mi1) d1 (HHMM h2 mi2) d2 b =
          (if spec_overlap (int h1 * 60 + int mi1) d1 (int h2 * 60 + int mi2) d2 b
           then (if datetime_min \<le> int h1 * 60 + int mi1 + d1 \<and>
                    int h1 * 60 + int mi1 + d1 \<le> datetime_max \<and>
                    datetime_min \<le> int h2 * 60 + int mi2 + d2 \<and>
                    int h2 * 60 + int mi2 + d2 \<le> datetime_max
                 then Inr (True, Some (overlap_message
                         (HHMM h1 mi1) (strftime_HM (int h1 * 60 + int mi1 + d1))
                         (HHMM h2 mi2) (strftime_HM (int h2 * 60 + int mi2 + d2))))
                 else Inl OverflowError)
           else Inr (False, None))" for b
    using assms
    by (simp add: detect_overlap_def time_to_minutes_HHMM add_minutes_HHMM spec_overlap_def Let_def)
  have s: "strftime_HM (int h2 * 60 + int mi2) = HHMM h2 mi2"
  proof -
    have "(int h2 * 60 + int mi2) mod 1440 = int h2 * 60 + int mi2" using assms by simp
    moreover have "(int h2 * 60 + int mi2) div 60 = int h2" "(int h2 * 60 + int mi2) mod 60 = int mi2"
      using assms by simp_all
    ultimately show ?thesis by (simp add: strftime_HM_def HHMM_def hour_def minute_def del: zfill.simps)
  qed
  have r: "datetime_min \<le> int h2 * 60 + int mi2" "int h2 * 60 + int mi2 \<le> datetime_max"
    using assms by (simp_all add: datetime_min_def datetime_max_def)
  have b0: "detect_overlap (HHMM h1 mi1) d1 (HHMM h2 mi2) d2 0 = Inr (False, None)"
    if "int h2 * 60 + int mi2 = int h1 * 60 + int mi1 + d1"
    using that by (simp add: g[of 0] spec_overlap_def)
  have b5: "detect_overlap (HHMM h1 mi1) d1 (HHMM h2 mi2) d2 5 =
              Inr (True, Some (overlap_message
                         (HHMM h1 mi1) (HHMM h2 mi2)
                         (HHMM h2 mi2) (strftime_HM (int h2 * 60 + int mi2 + d2))))"
    if e: "int h2 * 60 + int mi2 = int h1 * 60 + int mi1 + d1" and "0 \<le> d1" "0 \<le> d2"
       "int h2 * 60 + int mi2 + d2 \<le> datetime_max"
  proof -
    have "spec_overlap (int h1 * 60 + int mi1) d1 (int h2 * 60 + int mi2) d2 5"
      using that by (simp add: spec_overlap_def)
    moreover have "datetime_min \<le> int h2 * 60 + int mi2 + d2" using r that by linarith
    ultimately show ?thesis
      using r that s unfolding g[of 5] e[symmetric] by simp
  qed
  show ?thesis using g b0 b5 by blast
qed

theorem detect_overlap_flag_witness:
  "(9::nat) < 24 \<and> (0::nat) < 60 \<and> (30::nat) < 60 \<and>
   detect_overlap (HHMM 9 0) 30 (HHMM 9 30) 30 0 = Inr (False, None) \<and>
   detect_overlap (HHMM 9 0) 30 (HHMM 9 30) 30 5 =
      Inr (True, Some (overlap_message (HHMM 9 0) (HHMM 9 30) (HHMM 9 30) (strftime_HM 600)))"
  using detect_overlap_flag[of 9 0 9 30 30 30 0]
  by (simp add: datetime_max_def datetime_min_def spec_overlap_def)

text \<open>
  The claim as stated, for all non-negative durations, fails: with a first duration of
  5000000000 minutes the overlap rule holds, and the call raises \<open>OverflowError\<close>
  instead of returning true.
\<close>

theorem detect_overlap_huge_duration_counterexample:
  "time_to_minutes ''09:00'' = Inr 540 \<and>
   spec_overlap 540 5000000000 540 30 5 \<and>
   detect_overlap ''09:00'' 5000000000 ''09:00'' 30 5 = Inl OverflowError"
  by code_simp

text \<open>
  Claim C10.  Whenever \<open>detect_overlap\<close> returns, its message is present exactly when
  the flag is true, and the message then shows, for each slot, the start string and the
  clock time of start plus duration; the buffer does not occur in it.  The call
  \<open>detect_overlap("09:00", 30, "09:20", 30, buffer=5)\<close> returns true with a message
  citing 09:00-09:30 and 09:20-09:50.
\<close>

theorem detect_overlap_message:
  "(\<forall>s1 d1 s2 d2 b flag msg.
      detect_overlap s1 d1 s2 d2 b = Inr (flag, msg) \<longrightarrow>
        (msg \<noteq> None) = flag \<and>
        (flag \<longrightarrow> (\<exists>m1 m2. time_to_minutes s1 = Inr m1 \<and> time_to_minutes s2 = Inr m2 \<and>
            msg = Some (overlap_message s1 (strftime_HM (m1 + d1)) s2 (strftime_HM (m2 + d2)))))) \<and>
   detect_overlap ''09:00'' 30 ''09:20'' 30 5 =
     Inr (True, Some ''Conflict detected: Slot 1 (09:00-09:30) overlaps with Slot 2 (09:20-09:50)'')"
proof -
  have g: "(msg \<noteq> None) = flag \<and>
        (flag \<longrightarrow> (\<exists>m1 m2. time_to_minutes s1 = Inr m1 \<and> time_to_minutes s2 = Inr m2 \<and>
            msg = Some (overlap_message s1 (strftime_HM (m1 + d1)) s2 (strftime_HM (m2 + d2)))))"
    if "detect_overlap s1 d1 s2 d2 b = Inr (flag, msg)" for s1 d1 s2 d2 b flag msg
  proof (cases flag)
    case False
    with that show ?thesis
      by (auto simp: detect_overlap_def Let_def split: sum.splits if_splits)
  next
    case True
    with that obtain e1 e2 where a: "add_minutes s1 d1 = Inr e1" "add_minutes s2 d2 = Inr e2"
      and m: "msg = Some (overlap_message s1 e1 s2 e2)"
      by (auto simp: detect_overlap_def Let_def split: sum.splits if_splits)
    from add_minutes_Inr[OF a(1)] add_minutes_Inr[OF a(2)] m True
    show ?thesis by auto
  qed
  have e: "detect_overlap ''09:00'' 30 ''09:20'' 30 5 =
     Inr (True, Some ''Conflict detected: Slot 1 (09:00-09:30) overlaps with Slot 2 (09:20-09:50)'')"
    by code_simp
  show ?thesis using g e by blast
qed

theorem detect_overlap_message_witness:
  "detect_overlap ''09:00'' 30 ''09:30'' 30 5 =
     Inr (True, Some ''Conflict detected: Slot 1 (09:00-09:30) overlaps with Slot 2 (09:30-10:00)'') \<and>
   (\<exists>m1 m2. time_to_minutes ''09:00'' = Inr m1 \<and> time_to_minutes ''09:30'' = Inr m2 \<and>
      Some ''Conflict detected: Slot 1 (09:00-09:30) overlaps with Slot 2 (09:30-10:00)'' =
      Some (overlap_message ''09:00'' (strftime_HM (m1 + 30)) ''09:30'' (strftime_HM (m2 + 30))))"
proof -
  have d: "detect_overlap ''09:00'' 30 ''09:30'' 30 5 =
     Inr (True, Some ''Conflict detected: Slot 1 (09:00-09:30) overlaps with Slot 2 (09:30-10:00)'')"
    by code_simp
  from detect_overlap_message have
    "\<exists>m1 m2. time_to_minutes ''09:00'' = Inr m1 \<and> time_to_minutes ''09:30'' = Inr m2 \<and>
      Some ''Conflict detected: Slot 1 (09:00-09:30) overlaps with Slot 2 (09:30-10:00)'' =
      Some (overlap_message ''09:00'' (strftime_HM (m1 + 30)) ''09:30'' (strftime_HM (m2 + 30)))"
    using d by blast
  with d show ?thesis by blast
qed

section \<open>Lemmas on the appointment service\<close>

lemma to_responses_eq:
  "to_responses xs = (if list_all Appointment_valid xs then Inr xs else Inl ValidationError)"
  by (induction xs) (auto simp: AppointmentResponse_def)

lemma apply_filter_eq:
  "apply_filter f field xs = filter (\<lambda>apt. truthy f \<longrightarrow> field apt = the f) xs"
  by (cases f) (auto simp: apply_filter_def truthy_def)

lemma create_appointment_cases:
  "create_appointment u n i db =
     (case calculate_end_time (time i) (duration i) of
        Inl e \<Rightarrow> (Inl e, db)
      | Inr new_end_time \<Rightarrow>
          (case conflict_scan i new_end_time db of
             Some e \<Rightarrow> (Inl e, db)
           | None \<Rightarrow>
               (AppointmentResponse
                  \<lparr>patient_name = patient_name i, date = date i, time = time i,
                   duration = duration i, doctor_name = doctor_name i, mode = mode i,
                   id' = ''apt-'' @ take 8 u,
                   status = (case status_opt i of None \<Rightarrow> ''Scheduled''
                             | Some s \<Rightarrow> if s \<noteq> [] then s else ''Scheduled''),
                   created_at = isoformat n @ ''Z''\<rparr>,
                db @ [\<lparr>patient_name = patient_name i, date = date i, time = time i,
                   duration = duration i, doctor_name = doctor_name i, mode = mode i,
                   id' = ''apt-'' @ take 8 u,
                   status = (case status_opt i of None \<Rightarrow> ''Scheduled''
                             | Some s \<Rightarrow> if s \<noteq> [] then s else ''Scheduled''),
                   created_at = isoformat n @ ''Z''\<rparr>])))"
  by (simp add: create_appointment_def Let_def split: sum.splits option.splits)












lemma calculate_end_time_valid:
  assumes "CreateAppointmentInput_valid i"
  shows "\<exists>t. parse_time (time i) = Inr t \<and>
             calculate_end_time (time i) (duration i) = Inr (strftime_HM (t + duration i))"
proof -
  from assms obtain t where t: "strptime_HM (time i) = Inr t"
    by (auto simp: CreateAppointmentInput_valid_def AppointmentBase_valid_def validate_time_format_def
        split: sum.splits)
  from assms have d: "15 \<le> duration i" "duration i \<le> 240"
    by (simp_all add: CreateAppointmentInput_valid_def AppointmentBase_valid_def)
  from strptime_HM_range[OF t] have r: "0 \<le> t" "t < 1440" by simp_all
  have "calculate_end_time (time i) (duration i) = Inr (strftime_HM (t + duration i))"
    using t d r
    by (simp add: calculate_end_time_def parse_time_def timedelta_minutes_def datetime_add_def
        datetime_min_def datetime_max_def)
  with t show ?thesis by (simp add: parse_time_def)
qed

lemma calculate_end_time_same_day:
  assumes "parse_time start = Inr t" "0 \<le> d" "t + d < 1440"
  shows "calculate_end_time start d = Inr (strftime_HM (t + d))"
proof -
  from assms(1) have r: "0 \<le> t" "t < 1440"
    using strptime_HM_range[of start t] by (simp_all add: parse_time_def)
  have "d div 1440 = 0" using assms r by simp
  then show ?thesis
    using assms r
    by (simp add: calculate_end_time_def timedelta_minutes_def datetime_add_def
        datetime_min_def datetime_max_def)
qed

lemma check_time_overlap_same_day:
  assumes "parse_time s1 = Inr t1" "0 \<le> d1" "t1 + d1 < 1440"
    and "parse_time s2 = Inr t2" "0 \<le> d2" "t2 + d2 < 1440"
  shows "check_time_overlap s1 (strftime_HM (t1 + d1)) s2 (strftime_HM (t2 + d2)) =
           Inr (spec_overlap t1 d1 t2 d2 0)"
proof -
  have r: "0 \<le> t1" "0 \<le> t2"
    using assms(1,4) strptime_HM_range[of s1 t1] strptime_HM_range[of s2 t2]
    by (simp_all add: parse_time_def)
  have e: "parse_time (strftime_HM (t1 + d1)) = Inr (t1 + d1)"
      "parse_time (strftime_HM (t2 + d2)) = Inr (t2 + d2)"
    using assms r by (simp_all add: parse_time_strftime_HM)
  show ?thesis
    using assms(1,4) e by (auto simp add: check_time_overlap_def spec_overlap_def)
qed

lemma conflict_scan_same_day:
  assumes "ends_same_day (time input_data) (duration input_data)"
    and "\<forall>e \<in> set db. is_candidate input_data e \<longrightarrow> ends_same_day (time e) (duration e)"
    and "calculate_end_time (time input_data) (duration input_data) = Inr new_end_time"
  shows "conflict_scan input_data new_end_time db =
     (case filter (\<lambda>e. is_candidate input_data e \<and>
                       plain_overlap (time input_data) (duration input_data) (time e) (duration e)) db of
        [] \<Rightarrow> None
      | e # _ \<Rightarrow> Some (ConflictError (conflict_message (doctor_name input_data) (time e)
                        (projr (calculate_end_time (time e) (duration e))) (date input_data))))"
proof -
  from assms(1) obtain t where t: "parse_time (time input_data) = Inr t"
    "0 \<le> duration input_data" "t + duration input_data < 1440"
    by (auto simp: ends_same_day_def split: sum.splits)
  from assms(3) have n: "new_end_time = strftime_HM (t + duration input_data)"
    using calculate_end_time_same_day[OF t] by simp
  from assms(2) show ?thesis
  proof (induction db)
    case Nil
    then show ?case by simp
  next
    case (Cons e db)
    from Cons.prems have "\<forall>e \<in> set db. is_candidate input_data e \<longrightarrow> ends_same_day (time e) (duration e)"
      by simp
    note ih = Cons.IH[OF this]
    show ?case
    proof (cases "is_candidate input_data e")
      case False
      then have "\<not> (doctor_name e = doctor_name input_data \<and> date e = date input_data \<and>
                  status e \<notin> set [''Cancelled'', ''Completed''])"
        by (simp add: is_candidate_def)
      then have "conflict_scan input_data new_end_time (e # db) = conflict_scan input_data new_end_time db"
        by (simp only: conflict_scan.simps if_False)
      then show ?thesis using ih False by simp
    next
      case True
      with Cons.prems obtain te where te: "parse_time (time e) = Inr te"
        "0 \<le> duration e" "te + duration e < 1440"
        by (auto simp: ends_same_day_def split: sum.splits)
      have c: "calculate_end_time (time e) (duration e) = Inr (strftime_HM (te + duration e))"
        by (rule calculate_end_time_same_day[OF te])
      have o: "check_time_overlap (time input_data) new_end_time (time e) (strftime_HM (te + duration e))
                 = Inr (spec_overlap t (duration input_data) te (duration e) 0)"
        unfolding n by (rule check_time_overlap_same_day[OF t te])
      have p: "plain_overlap (time input_data) (duration input_data) (time e) (duration e)
                 = spec_overlap t (duration input_data) te (duration e) 0"
        by (simp add: plain_overlap_def t te)
      from True have cand: "doctor_name e = doctor_name input_data \<and> date e = date input_data \<and>
                  status e \<notin> set [''Cancelled'', ''Completed'']"
        by (simp add: is_candidate_def)
      have "conflict_scan input_data new_end_time (e # db) =
              (if spec_overlap t (duration input_data) te (duration e) 0
               then Some (ConflictError (conflict_message (doctor_name input_data) (time e)
                            (strftime_HM (te + duration e)) (date input_data)))
               else conflict_scan input_data new_end_time db)"
        using cand by (simp add: c o)
      then show ?thesis
        using ih True p c by simp
    qed
  qed
qed

lemma create_appointment_conflict_same_day:
  assumes "ends_same_day (time input_data) (duration input_data)"
    and "\<forall>e \<in> set db. is_candidate input_data e \<longrightarrow> ends_same_day (time e) (duration e)"
  shows "fst (create_appointment uuid4_hex utcnow input_data db) =
     (case filter (\<lambda>e. is_candidate input_data e \<and>
                       plain_overlap (time input_data) (duration input_data) (time e) (duration e)) db of
        [] \<Rightarrow> AppointmentResponse
                \<lparr>patient_name = patient_name input_data, date = date input_data,
                 time = time input_data, duration = duration input_data,
                 doctor_name = doctor_name input_data, mode = mode input_data,
                 id' = ''apt-'' @ take 8 uuid4_hex,
                 status = (case status_opt input_data of None \<Rightarrow> ''Scheduled''
                           | Some s \<Rightarrow> if s \<noteq> [] then s else ''Scheduled''),
                 created_at = isoformat utcnow @ ''Z''\<rparr>
      | e # _ \<Rightarrow> Inl (ConflictError (conflict_message (doctor_name input_data) (time e)
                        (projr (calculate_end_time (time e) (duration e))) (date input_data))))"
proof -
  from assms(1) obtain t where t: "parse_time (time input_data) = Inr t"
    "0 \<le> duration input_data" "t + duration input_data < 1440"
    by (auto simp: ends_same_day_def split: sum.splits)
  have c: "calculate_end_time (time input_data) (duration input_data) =
             Inr (strftime_HM (t + duration input_data))"
    by (rule calculate_end_time_same_day[OF t])
  note s = conflict_scan_same_day[OF assms c]
  show ?thesis
    by (simp add: create_appointment_cases c s split: list.splits)
qed

section \<open>Claims on the appointment service\<close>

text \<open>
  Claim C5.  When \<open>create_appointment\<close> fails with the conflict error, the store is
  exactly what it was before the call: the scan ends before anything is appended.
\<close>

theorem create_appointment_conflict_store_unchanged:
  assumes "fst (create_appointment uuid4_hex utcnow input_data db) = Inl (ConflictError msg)"
  shows "snd (create_appointment uuid4_hex utcnow input_data db) = db"
  using assms
  by (auto simp: create_appointment_cases AppointmentResponse_def
      split: sum.splits option.splits if_splits)

theorem create_appointment_conflict_store_unchanged_witness:
  "fst (create_appointment uuid_a clock_now input_overlapping appointments_db) =
     Inl (ConflictError ''Time conflict: Dr. Sarah Johnson already has an appointment from 09:00 to 09:30 on 2025-12-27'') \<and>
   snd (create_appointment uuid_a clock_now input_overlapping appointments_db) = appointments_db"
proof -
  have c: "fst (create_appointment uuid_a clock_now input_overlapping appointments_db) =
     Inl (ConflictError ''Time conflict: Dr. Sarah Johnson already has an appointment from 09:00 to 09:30 on 2025-12-27'')"
    by code_simp
  from create_appointment_conflict_store_unchanged[OF c] c show ?thesis by simp
qed

lemma new_appointment_valid:
  assumes "CreateAppointmentInput_valid i"
  shows "Appointment_valid
           \<lparr>patient_name = patient_name i, date = date i, time = time i,
            duration = duration i, doctor_name = doctor_name i, mode = mode i,
            id' = new_id,
            status = (case status_opt i of None \<Rightarrow> ''Scheduled''
                      | Some s \<Rightarrow> if s \<noteq> [] then s else ''Scheduled''),
            created_at = c\<rparr>"
proof -
  have b: "AppointmentBase_valid i"
    using assms by (simp add: CreateAppointmentInput_valid_def)
  have s: "(case status_opt i of None \<Rightarrow> ''Scheduled''
            | Some s \<Rightarrow> if s \<noteq> [] then s else ''Scheduled'') \<in> set status_values"
    using assms by (auto simp: CreateAppointmentInput_valid_def status_values_def split: option.splits)
  show ?thesis
    unfolding Appointment_valid_def
    using b s by (simp add: AppointmentBase_valid_def)
qed

text \<open>
  What a successful \<open>create_appointment\<close> does.  The store is the old store followed by
  exactly one new record, which is the record returned; it carries the input's patient
  name, date, time, duration, doctor name and mode, the id \<open>apt-\<close> followed by the first
  eight characters of the generated \<open>uuid4().hex\<close>, the clock's \<open>isoformat()\<close> followed
  by \<open>Z\<close> as \<open>created_at\<close>, and the input's status, or \<open>Scheduled\<close> when the input has
  none.  For every validated input whose conflict scan finds nothing, the call does
  succeed.  Whether the new id differs from the ids already stored is not part of this
  statement.
\<close>

theorem create_appointment_success:
  "(fst (create_appointment uuid4_hex utcnow input_data db) = Inr r \<longrightarrow>
      snd (create_appointment uuid4_hex utcnow input_data db) = db @ [r] \<and>
      patient_name r = patient_name input_data \<and> date r = date input_data \<and>
      time r = time input_data \<and> duration r = duration input_data \<and>
      doctor_name r = doctor_name input_data \<and> mode r = mode input_data \<and>
      id' r = ''apt-'' @ take 8 uuid4_hex \<and>
      created_at r = isoformat utcnow @ ''Z'' \<and>
      status r = (case status_opt input_data of None \<Rightarrow> ''Scheduled''
                  | Some s \<Rightarrow> if s \<noteq> [] then s else ''Scheduled'')) \<and>
   (CreateAppointmentInput_valid input_data \<and>
    calculate_end_time (time input_data) (duration input_data) = Inr new_end_time \<and>
    conflict_scan input_data new_end_time db = None \<longrightarrow>
      (\<exists>r'. fst (create_appointment uuid4_hex utcnow input_data db) = Inr r'))"
proof -
  have a: "snd (create_appointment uuid4_hex utcnow input_data db) = db @ [r] \<and>
      patient_name r = patient_name input_data \<and> date r = date input_data \<and>
      time r = time input_data \<and> duration r = duration input_data \<and>
      doctor_name r = doctor_name input_data \<and> mode r = mode input_data \<and>
      id' r = ''apt-'' @ take 8 uuid4_hex \<and>
      created_at r = isoformat utcnow @ ''Z'' \<and>
      status r = (case status_opt input_data of None \<Rightarrow> ''Scheduled''
                  | Some s \<Rightarrow> if s \<noteq> [] then s else ''Scheduled'')"
    if "fst (create_appointment uuid4_hex utcnow input_data db) = Inr r"
    using that
    by (auto simp: create_appointment_cases AppointmentResponse_def
        split: sum.splits option.splits if_splits)
  have b: "\<exists>r'. fst (create_appointment uuid4_hex utcnow input_data db) = Inr r'"
    if "CreateAppointmentInput_valid input_data"
      "calculate_end_time (time input_data) (duration input_data) = Inr new_end_time"
      "conflict_scan input_data new_end_time db = None"
    using that new_appointment_valid[OF that(1)]
    by (simp add: create_appointment_cases AppointmentResponse_def)
  show ?thesis using a b by blast
qed

theorem create_appointment_success_witness:
  "CreateAppointmentInput_valid input_morning \<and>
   calculate_end_time (time input_morning) (duration input_morning) = Inr ''09:30'' \<and>
   conflict_scan input_morning ''09:30'' appointments_db = None \<and>
   (\<exists>r. fst (create_appointment uuid_a clock_now input_morning appointments_db) = Inr r \<and>
        snd (create_appointment uuid_a clock_now input_morning appointments_db) =
          appointments_db @ [r] \<and>
        patient_name r = ''Chandra Das'' \<and> id' r = ''apt-0a1b2c3d'' \<and>
        status r = ''Scheduled'' \<and> created_at r = ''2025-12-27T08:30:00Z'')"
proof -
  have v: "CreateAppointmentInput_valid input_morning \<and>
     calculate_end_time (time input_morning) (duration input_morning) = Inr ''09:30'' \<and>
     conflict_scan input_morning ''09:30'' appointments_db = None"
    by code_simp
  from create_appointment_success[THEN conjunct2, rule_format, OF v]
  obtain r where r: "fst (create_appointment uuid_a clock_now input_morning appointments_db) = Inr r"
    by blast
  from create_appointment_success[THEN conjunct1, rule_format, OF r]
  have f: "snd (create_appointment uuid_a clock_now input_morning appointments_db) =
             appointments_db @ [r]"
    "patient_name r = patient_name input_morning"
    "id' r = ''apt-'' @ take 8 uuid_a"
    "created_at r = isoformat clock_now @ ''Z''"
    "status r = (case status_opt input_morning of None \<Rightarrow> ''Scheduled''
                 | Some s \<Rightarrow> if s \<noteq> [] then s else ''Scheduled'')"
    by simp_all
  have e: "patient_name input_morning = ''Chandra Das''"
    "''apt-'' @ take 8 uuid_a = ''apt-0a1b2c3d''"
    "isoformat clock_now @ ''Z'' = ''2025-12-27T08:30:00Z''"
    "(case status_opt input_morning of None \<Rightarrow> ''Scheduled''
      | Some s \<Rightarrow> if s \<noteq> [] then s else ''Scheduled'') = ''Scheduled''"
    by code_simp+
  from v r f e show ?thesis by auto
qed

text \<open>
  Claim C3, at an input where the code departs from it.  The claim asks for a newly
  assigned unique id, and the code says the same (the comment \<open>Generate unique ID\<close>, the
  description \<open>Unique appointment identifier\<close> of \<open>AppointmentResponse.id\<close>).  But the id
  keeps only the first eight hexadecimal digits of the UUID and is not compared with
  the store.  On the seeded store, a first call draws \<open>uuid_a\<close>; a second call draws
  \<open>uuid_c\<close>, another version 4 UUID with the same first eight digits.  The second call
  succeeds, and the record it returns and stores has the id of the record stored by
  the first.
\<close>

theorem create_appointment_repeats_stored_id:
  "is_uuid4_hex uuid_a \<and> is_uuid4_hex uuid_c \<and> uuid_a \<noteq> uuid_c \<and>
   fst (create_appointment uuid_a clock_now input_morning appointments_db) =
     Inr \<lparr>patient_name = ''Chandra Das'', date = ''2026-01-05'', time = ''09:00'', duration = 30,
          doctor_name = ''Dr. Rajesh Verma'', mode = ''Phone'', id' = ''apt-0a1b2c3d'',
          status = ''Scheduled'', created_at = ''2025-12-27T08:30:00Z''\<rparr> \<and>
   fst (create_appointment uuid_c clock_now input_late_hour
          (run [Create uuid_a clock_now input_morning] appointments_db)) =
     Inr \<lparr>patient_name = ''Asha Rao'', date = ''2025-12-30'', time = ''23:30'', duration = 60,
          doctor_name = ''Dr. Sarah Johnson'', mode = ''In-person'', id' = ''apt-0a1b2c3d'',
          status = ''Scheduled'', created_at = ''2025-12-27T08:30:00Z''\<rparr> \<and>
   ''apt-0a1b2c3d'' \<in> id' ` set (run [Create uuid_a clock_now input_morning] appointments_db) \<and>
   \<not> distinct (map id' (run [Create uuid_a clock_now input_morning,
                              Create uuid_c clock_now input_late_hour] appointments_db))"
  by code_simp

text \<open>
  Claim C2, at an input where the code departs from it.  On the seeded store, a first
  call books Dr. Sarah Johnson on 2025-12-30 from 23:30 for 60 minutes.  A second call
  asks for 23:45 for 15 minutes, same doctor, same date.  The overlap test of the claim
  holds (1425 < 1410 + 60 and 1410 < 1425 + 15), but \<open>calculate_end_time\<close> has turned the
  end of the first slot into the clock time 00:30, \<open>check_time_overlap\<close> compares
  23:45 < 00:30, and the second appointment is created.  When all the slots involved end
  on the day they start, the scan does what the claim says
  (\<open>create_appointment_conflict_same_day\<close>).
\<close>

theorem create_appointment_misses_overlap_past_midnight:
  "last (run [Create uuid_a clock_now input_late_hour] appointments_db) =
     \<lparr>patient_name = ''Asha Rao'', date = ''2025-12-30'', time = ''23:30'', duration = 60,
      doctor_name = ''Dr. Sarah Johnson'', mode = ''In-person'', id' = ''apt-0a1b2c3d'',
      status = ''Scheduled'', created_at = ''2025-12-27T08:30:00Z''\<rparr> \<and>
   time_to_minutes ''23:45'' = Inr 1425 \<and> time_to_minutes ''23:30'' = Inr 1410 \<and>
   spec_overlap 1425 15 1410 60 0 \<and>
   fst (create_appointment uuid_b clock_now input_late_quarter
          (run [Create uuid_a clock_now input_late_hour] appointments_db)) =
     Inr \<lparr>patient_name = ''Bela Sen'', date = ''2025-12-30'', time = ''23:45'', duration = 15,
          doctor_name = ''Dr. Sarah Johnson'', mode = ''Video'', id' = ''apt-deadbeef'',
          status = ''Confirmed'', created_at = ''2025-12-27T08:30:00Z''\<rparr>"
  by code_simp

text \<open>
  Claim C4, as amended.  For every store and every combination of the three filters,
  \<open>get_appointments\<close> selects the stored appointments whose fields equal every filter
  that is given and is not the empty string (a filter that is absent or empty excludes
  nothing), in the order of the store and without truncation; it returns them when all
  of them pass the validation of \<open>AppointmentResponse\<close>, and raises \<open>ValidationError\<close>
  otherwise.
\<close>

theorem get_appointments_filters:
  "get_appointments date_f status_f doctor_name_f db =
     (if list_all Appointment_valid
           (filter (\<lambda>apt. (truthy date_f \<longrightarrow> date apt = the date_f) \<and>
                          (truthy status_f \<longrightarrow> status apt = the status_f) \<and>
                          (truthy doctor_name_f \<longrightarrow> doctor_name apt = the doctor_name_f)) db)
      then Inr (filter (\<lambda>apt. (truthy date_f \<longrightarrow> date apt = the date_f) \<and>
                          (truthy status_f \<longrightarrow> status apt = the status_f) \<and>
                          (truthy doctor_name_f \<longrightarrow> doctor_name apt = the doctor_name_f)) db)
      else Inl ValidationError)"
proof -
  have "apply_filter doctor_name_f doctor_name
          (apply_filter status_f status (apply_filter date_f date db)) =
        filter (\<lambda>apt. (truthy date_f \<longrightarrow> date apt = the date_f) \<and>
                          (truthy status_f \<longrightarrow> status apt = the status_f) \<and>
                          (truthy doctor_name_f \<longrightarrow> doctor_name apt = the doctor_name_f)) db"
    unfolding apply_filter_eq filter_filter by (rule filter_cong) auto
  then show ?thesis
    unfolding get_appointments_def to_responses_eq by simp
qed

theorem get_appointments_filters_witness:
  "get_appointments None (Some ''Scheduled'') (Some '''') appointments_db =
     Inr (filter (\<lambda>apt. status apt = ''Scheduled'') appointments_db)"
proof -
  have v: "list_all Appointment_valid (filter (\<lambda>apt. status apt = ''Scheduled'') appointments_db)"
    by code_simp
  show ?thesis
    using get_appointments_filters[of None "Some ''Scheduled''" "Some ''''" appointments_db] v
    by (simp add: truthy_def)
qed

text \<open>
  The claim as stated fails for a filter that is provided and empty: with the empty
  string as status the call returns the whole seeded store, although no stored
  appointment has that status.
\<close>

theorem get_appointments_empty_filter_counterexample:
  "get_appointments None (Some '''') None appointments_db = Inr appointments_db \<and>
   filter (\<lambda>apt. status apt = '''') appointments_db = [] \<and>
   appointments_db \<noteq> []"
  by code_simp

text \<open>
  Claim C6, at an input where the code departs from it.  On the seeded store,
  \<open>update_appointment_status("apt-001", "Bogus")\<close> writes the status into the row and
  only then builds the response, whose validation raises \<open>ValidationError\<close>: the store
  is left with a status outside the enumerated values.
\<close>

theorem update_appointment_status_stores_any_string:
  "fst (update_appointment_status ''apt-001'' ''Bogus'' appointments_db) = Inl ValidationError \<and>
   fst (Mutation_update_appointment_status ''apt-001'' ''Bogus'' appointments_db) =
     Inl ValidationError \<and>
   snd (Mutation_update_appointment_status ''apt-001'' ''Bogus'' appointments_db) =
     run [UpdateStatus ''apt-001'' ''Bogus''] appointments_db \<and>
   hd (run [UpdateStatus ''apt-001'' ''Bogus''] appointments_db) =
     \<lparr>patient_name = ''Rajesh Kumar'', date = ''2025-12-27'', time = ''09:00'', duration = 30,
      doctor_name = ''Dr. Sarah Johnson'', mode = ''In-person'', id' = ''apt-001'',
      status = ''Bogus'', created_at = ''2025-12-26T10:30:00Z''\<rparr> \<and>
   \<not> list_all (\<lambda>apt. status apt \<in> set status_values)
        (run [UpdateStatus ''apt-001'' ''Bogus''] appointments_db)"
  by code_simp







end
